theory Spec2Isabelle
  imports Complex_Main
begin

section \<open>Arrays of fixed shape\<close>

text \<open>
  The pipeline of \<^verbatim>\<open>SFM.py\<close> works on numpy arrays of floating-point numbers. The
  arrays whose shape is fixed by the code are modelled as tuples, and their entries as
  \<^typ>\<open>real\<close>: a 3-vector, a \<open>3\<times>3\<close> matrix (the intrinsics \<open>K\<close>, a rotation) as a triple
  of rows, a \<open>3\<times>4\<close> matrix (a pose \<open>[R | t]\<close>, a projection matrix) as a triple of rows of
  four entries. An \<open>N\<times>2\<close> or \<open>N\<times>3\<close> array is the list of its rows.
\<close>

type_synonym vec3 = "real \<times> real \<times> real"
type_synonym mat33 = "vec3 \<times> vec3 \<times> vec3"
type_synonym vec4 = "real \<times> real \<times> real \<times> real"
type_synonym mat34 = "vec4 \<times> vec4 \<times> vec4"
type_synonym pt2 = "real \<times> real"

fun dot3 :: "vec3 \<Rightarrow> vec3 \<Rightarrow> real" where
  "dot3 (a0, a1, a2) (b0, b1, b2) = a0 * b0 + a1 * b1 + a2 * b2"

fun add3 :: "vec3 \<Rightarrow> vec3 \<Rightarrow> vec3" where
  "add3 (a0, a1, a2) (b0, b1, b2) = (a0 + b0, a1 + b1, a2 + b2)"

fun sub3 :: "vec3 \<Rightarrow> vec3 \<Rightarrow> vec3" where
  "sub3 (a0, a1, a2) (b0, b1, b2) = (a0 - b0, a1 - b1, a2 - b2)"

fun scale3 :: "real \<Rightarrow> vec3 \<Rightarrow> vec3" where
  "scale3 c (a0, a1, a2) = (a0 * c, a1 * c, a2 * c)"

text \<open>The columns of a \<open>3\<times>3\<close> matrix, as a triple.\<close>

fun cols33 :: "mat33 \<Rightarrow> mat33" where
  "cols33 ((a00, a01, a02), (a10, a11, a12), (a20, a21, a22)) =
     ((a00, a10, a20), (a01, a11, a21), (a02, a12, a22))"

text \<open>\<^verbatim>\<open>np.matmul\<close> of a \<open>3\<times>3\<close> matrix with a 3-vector and with a \<open>3\<times>3\<close> matrix.\<close>

fun matvec33 :: "mat33 \<Rightarrow> vec3 \<Rightarrow> vec3" where
  "matvec33 (r0, r1, r2) v = (dot3 r0 v, dot3 r1 v, dot3 r2 v)"

fun matmul33 :: "mat33 \<Rightarrow> mat33 \<Rightarrow> mat33" where
  "matmul33 (r0, r1, r2) B =
     (case cols33 B of (c0, c1, c2) \<Rightarrow>
        ((dot3 r0 c0, dot3 r0 c1, dot3 r0 c2),
         (dot3 r1 c0, dot3 r1 c1, dot3 r1 c2),
         (dot3 r2 c0, dot3 r2 c1, dot3 r2 c2)))"

text \<open>The slices \<^verbatim>\<open>T[:3, :3]\<close> and \<^verbatim>\<open>T[:3, 3]\<close> of a \<open>3\<times>4\<close> matrix, and the matrix with
  these two slices (\<^verbatim>\<open>np.hstack((R, t))\<close>, or both slice assignments on an empty matrix).\<close>

fun rot_part :: "mat34 \<Rightarrow> mat33" where
  "rot_part ((a00, a01, a02, a03), (a10, a11, a12, a13), (a20, a21, a22, a23)) =
     ((a00, a01, a02), (a10, a11, a12), (a20, a21, a22))"

fun tran_part :: "mat34 \<Rightarrow> vec3" where
  "tran_part ((a00, a01, a02, a03), (a10, a11, a12, a13), (a20, a21, a22, a23)) =
     (a03, a13, a23)"

fun hstack34 :: "mat33 \<Rightarrow> vec3 \<Rightarrow> mat34" where
  "hstack34 ((a00, a01, a02), (a10, a11, a12), (a20, a21, a22)) (t0, t1, t2) =
     ((a00, a01, a02, t0), (a10, a11, a12, t1), (a20, a21, a22, t2))"


section \<open>Bootstrap: the world pose of the second view\<close>

text \<open>
  \<^verbatim>\<open>StructurefromMotion.__call__\<close>, the first pose and the two slice assignments that
  fill \<^verbatim>\<open>transform_matrix_1\<close> from the recovered rotation and translation:
  \<^verbatim>\<open>
  transform_matrix_0 = np.array([[1,0,0,0],[0,1,0,0],[0,0,1,0]])
  transform_matrix_1[:3, :3] = np.matmul(rot_matrix, transform_matrix_0[:3,:3])
  transform_matrix_1[:3, 3] = transform_matrix_0[:3, 3]
                              + np.matmul(transform_matrix_0[:3,:3], tran_matrix.ravel())
  \<close>
\<close>

definition transform_matrix_0_init :: mat34 where
  "transform_matrix_0_init = ((1, 0, 0, 0), (0, 1, 0, 0), (0, 0, 1, 0))"

definition bootstrap_pose :: "mat34 \<Rightarrow> mat33 \<Rightarrow> vec3 \<Rightarrow> mat34" where
  "bootstrap_pose transform_matrix_0 rot_matrix tran_matrix =
     hstack34 (matmul33 rot_matrix (rot_part transform_matrix_0))
              (add3 (tran_part transform_matrix_0)
                    (matvec33 (rot_part transform_matrix_0) tran_matrix))"

section \<open>Errors\<close>

text \<open>
  The exceptions the modelled code can raise. A function that can raise returns
  \<open>py_error + 'a\<close>, with \<open>Inl\<close> for the exception. \<open>cv2_error\<close> is OpenCV's own exception.
\<close>

datatype py_error = ValueError | IndexError | TypeError | ZeroDivisionError | cv2_error

text \<open>\<^verbatim>\<open>arr[idx]\<close> for a list of non-negative indices \<open>idx\<close> along the first axis: the
  rows at these indices, in the order of \<open>idx\<close>; an index past the end raises.\<close>

definition take_rows :: "'a list \<Rightarrow> nat list \<Rightarrow> py_error + 'a list" where
  "take_rows arr idx =
     (if list_all (\<lambda>j. j < length arr) idx then Inr (map (\<lambda>j. arr ! j) idx)
      else Inl IndexError)"

section \<open>Correspondence Finder: \<^verbatim>\<open>feature_matching\<close>\<close>

text \<open>
  A \<^verbatim>\<open>cv2.DMatch\<close>, with the fields the code reads. Keypoint detection
  (\<^verbatim>\<open>sift.detectAndCompute\<close>, on the grey image) and the matcher (\<^verbatim>\<open>bf.knnMatch\<close> with
  \<open>k = 2\<close>) are OpenCV's and are parameters: \<open>detectAndCompute\<close> gives the keypoints'
  coordinates (\<^verbatim>\<open>.pt\<close>) and the descriptors of an image, \<open>knnMatch\<close> gives one row of
  matches, nearest first, for each descriptor of the first image.
\<close>

record DMatch =
  distance :: real
  queryIdx :: nat
  trainIdx :: nat

text \<open>
  \<^verbatim>\<open>
  feature = []
  for m, n in matches:
      if m.distance < 0.70 * n.distance:
          feature.append(m)
  \<close>
  Unpacking \<^verbatim>\<open>m, n\<close> raises ValueError on a row that does not hold two matches.
\<close>

fun ratio_test :: "DMatch list list \<Rightarrow> py_error + DMatch list" where
  "ratio_test [] = Inr []"
| "ratio_test (row # matches) =
     (case row of
        [m, n] \<Rightarrow>
          (case ratio_test matches of
             Inl e \<Rightarrow> Inl e
           | Inr feature \<Rightarrow>
               Inr (if distance m < 0.70 * distance n then m # feature else feature))
      | _ \<Rightarrow> Inl ValueError)"

definition feature_matching ::
  "('img \<Rightarrow> pt2 list \<times> 'desc) \<Rightarrow> ('desc \<Rightarrow> 'desc \<Rightarrow> DMatch list list) \<Rightarrow>
   'img \<Rightarrow> 'img \<Rightarrow> py_error + (pt2 list \<times> pt2 list)" where
  "feature_matching detectAndCompute knnMatch image_0 image_1 =
     (case detectAndCompute image_0 of (key_points0, descriptors_0) \<Rightarrow>
      case detectAndCompute image_1 of (key_points1, descriptors_1) \<Rightarrow>
      case ratio_test (knnMatch descriptors_0 descriptors_1) of
        Inl e \<Rightarrow> Inl e
      | Inr feature \<Rightarrow>
          (case take_rows key_points0 (map queryIdx feature) of
             Inl e \<Rightarrow> Inl e
           | Inr pts0 \<Rightarrow>
               (case take_rows key_points1 (map trainIdx feature) of
                  Inl e \<Rightarrow> Inl e
                | Inr pts1 \<Rightarrow> Inr (pts0, pts1))))"

section \<open>Geometric Estimator: \<^verbatim>\<open>triangulation\<close>\<close>

text \<open>
  numpy's division of floats does not raise on a zero divisor: it gives \<open>nan\<close> or
  \<open>\<plusminus>inf\<close> (with a warning). These are not real numbers; \<open>None\<close> stands for them.
\<close>

definition np_divide :: "real \<Rightarrow> real \<Rightarrow> real option" where
  "np_divide x y = (if y = 0 then None else Some (x / y))"

text \<open>\<^verbatim>\<open>a.T\<close> of an \<open>N\<times>2\<close> array: the \<open>2\<times>N\<close> array, as its two rows.\<close>

definition T_N2 :: "pt2 list \<Rightarrow> real list \<times> real list" where
  "T_N2 pts = (map fst pts, map snd pts)"

text \<open>
  \<^verbatim>\<open>
  point_cloud = cv2.triangulatePoints(pts_2d_1, pts_2d_2, proj_matrix_1.T, proj_matrix_2.T)
  return proj_matrix_1.T, proj_matrix_2.T, (point_cloud/point_cloud[3])
  \<close>
  \<^verbatim>\<open>cv2.triangulatePoints\<close> is a parameter. Its result, a \<open>4\<times>N\<close> array of homogeneous
  points, is the list of its \<open>N\<close> columns \<open>(x, y, z, w)\<close>; \<^verbatim>\<open>point_cloud[3]\<close> is the row
  of the \<open>w\<close>, and the division broadcasts it over the four rows, so that every column is
  divided by its own \<open>w\<close>. (The driver passes the two projection matrices first and the
  two point arrays last; the parameters keep the names of the source.)
\<close>

definition triangulation ::
  "('a \<Rightarrow> 'a \<Rightarrow> real list \<times> real list \<Rightarrow> real list \<times> real list \<Rightarrow> vec4 list) \<Rightarrow>
   'a \<Rightarrow> 'a \<Rightarrow> pt2 list \<Rightarrow> pt2 list \<Rightarrow>
   (real list \<times> real list) \<times> (real list \<times> real list) \<times>
   (real option \<times> real option \<times> real option \<times> real option) list" where
  "triangulation triangulatePoints pts_2d_1 pts_2d_2 proj_matrix_1 proj_matrix_2 =
     (let point_cloud =
            triangulatePoints pts_2d_1 pts_2d_2 (T_N2 proj_matrix_1) (T_N2 proj_matrix_2)
      in (T_N2 proj_matrix_1, T_N2 proj_matrix_2,
          map (\<lambda>(x, y, z, w). (np_divide x w, np_divide y w, np_divide z w, np_divide w w))
              point_cloud))"

section \<open>Pose Estimator: \<^verbatim>\<open>solve_PnP\<close>\<close>

text \<open>
  \<^verbatim>\<open>solve_PnP\<close> takes arrays whose number of dimensions depends on the flag \<open>initial\<close>,
  so here an array is a nested list: a number, or the list of its sub-arrays along the
  first axis.
\<close>

datatype ndarray = Num real | Arr "ndarray list"

fun rows :: "ndarray \<Rightarrow> ndarray list" where
  "rows (Arr xs) = xs"
| "rows (Num x) = []"

text \<open>\<^verbatim>\<open>a[:, 0, :]\<close> on an array of three dimensions (the \<open>N\<times>1\<times>3\<close> array of OpenCV's
  point lists): of each row, its first sub-array. An array with too few dimensions
  raises IndexError.\<close>

fun has_first_row :: "ndarray \<Rightarrow> bool" where
  "has_first_row (Arr (Arr ys # rest)) = True"
| "has_first_row a = False"

definition index_mid0 :: "ndarray \<Rightarrow> py_error + ndarray" where
  "index_mid0 a =
     (case a of
        Num x \<Rightarrow> Inl IndexError
      | Arr rs \<Rightarrow>
          if list_all has_first_row rs then Inr (Arr (map (\<lambda>r. hd (rows r)) rs))
          else Inl IndexError)"

text \<open>\<^verbatim>\<open>a.T\<close> on an array of two dimensions (rows of numbers, all of one length).\<close>

definition T_2d :: "ndarray \<Rightarrow> ndarray" where
  "T_2d a = Arr (map Arr (transpose (map rows (rows a))))"

text \<open>
  \<^verbatim>\<open>
  if initial == 1:
      obj_point = obj_point[:,0,:]
      image_point = image_point.T
      rot_vector = rot_vector.T
  \<close>
  The three arrays as the solver and the pruning see them.
\<close>

definition pnp_arrays ::
  "ndarray \<Rightarrow> ndarray \<Rightarrow> ndarray \<Rightarrow> int \<Rightarrow> py_error + (ndarray \<times> ndarray \<times> ndarray)" where
  "pnp_arrays obj_point image_point rot_vector initial =
     (if initial = 1 then
        (case index_mid0 obj_point of
           Inl e \<Rightarrow> Inl e
         | Inr obj_point' \<Rightarrow> Inr (obj_point', T_2d image_point, T_2d rot_vector))
      else Inr (obj_point, image_point, rot_vector))"

text \<open>
  \<^verbatim>\<open>
  _, rot_vector_calc, tran_vector, inlier = cv2.solvePnPRansac(obj_point, image_point, K,
                                                dist_coeff, cv2.SOLVEPNP_ITERATIVE)
  rot_matrix, _ = cv2.Rodrigues(rot_vector_calc)
  if inlier is not None:
      image_point = image_point[inlier[:,0]]
      obj_point = obj_point[inlier[:,0]]
      rot_vector = rot_vector[inlier[:,0]]
  return rot_matrix, tran_vector, image_point, obj_point, rot_vector
  \<close>
  \<^verbatim>\<open>cv2.solvePnPRansac\<close> and \<^verbatim>\<open>cv2.Rodrigues\<close> are parameters. The solver raises, or
  returns a rotation vector, a translation and either \<^verbatim>\<open>None\<close> or the inlier indices
  (the column \<^verbatim>\<open>inlier[:,0]\<close>).
\<close>

definition solve_PnP ::
  "(ndarray \<Rightarrow> ndarray \<Rightarrow> 'k \<Rightarrow> 'd \<Rightarrow> py_error + ('rv \<times> 'tv \<times> nat list option)) \<Rightarrow>
   ('rv \<Rightarrow> 'rm) \<Rightarrow> ndarray \<Rightarrow> ndarray \<Rightarrow> 'k \<Rightarrow> 'd \<Rightarrow> ndarray \<Rightarrow> int \<Rightarrow>
   py_error + ('rm \<times> 'tv \<times> ndarray \<times> ndarray \<times> ndarray)" where
  "solve_PnP solvePnPRansac Rodrigues obj_point image_point K dist_coeff rot_vector initial =
     (case pnp_arrays obj_point image_point rot_vector initial of
        Inl e \<Rightarrow> Inl e
      | Inr (obj_point, image_point, rot_vector) \<Rightarrow>
          (case solvePnPRansac obj_point image_point K dist_coeff of
             Inl e \<Rightarrow> Inl e
           | Inr (rot_vector_calc, tran_vector, inlier) \<Rightarrow>
               (let rot_matrix = Rodrigues rot_vector_calc in
                case inlier of
                  None \<Rightarrow> Inr (rot_matrix, tran_vector, image_point, obj_point, rot_vector)
                | Some idx \<Rightarrow>
                    (case take_rows (rows image_point) idx of
                       Inl e \<Rightarrow> Inl e
                     | Inr image_point' \<Rightarrow>
                         (case take_rows (rows obj_point) idx of
                            Inl e \<Rightarrow> Inl e
                          | Inr obj_point' \<Rightarrow>
                              (case take_rows (rows rot_vector) idx of
                                 Inl e \<Rightarrow> Inl e
                               | Inr rot_vector' \<Rightarrow>
                                   Inr (rot_matrix, tran_vector, Arr image_point',
                                        Arr obj_point', Arr rot_vector')))))))"

section \<open>Track Linker: \<^verbatim>\<open>find_common_points\<close>\<close>

text \<open>
  \<^verbatim>\<open>np.where(image_points_2 == p)[0]\<close> for a row \<open>p\<close>. The comparison is elementwise, with
  \<open>p\<close> broadcast over the rows of the \<open>N\<times>2\<close> array; \<^verbatim>\<open>np.where\<close> lists the entries that
  are true in row-major order, and its first component holds their row indices. So row
  \<open>j\<close> is listed once for each of its two coordinates that equals the coordinate of
  \<open>p\<close> in the same column. The first argument is the index of the first row.
\<close>

fun np_where_rows :: "nat \<Rightarrow> pt2 list \<Rightarrow> pt2 \<Rightarrow> nat list" where
  "np_where_rows j [] p = []"
| "np_where_rows j (q # qs) p =
     (if fst q = fst p then [j] else []) @ (if snd q = snd p then [j] else [])
       @ np_where_rows (Suc j) qs p"

text \<open>
  \<^verbatim>\<open>
  cm_points_1 = []
  cm_points_2 = []
  for i in range(image_points_1.shape[0]):
      a = np.where(image_points_2 == image_points_1[i, :])
      if a[0].size != 0:
          cm_points_1.append(i)
          cm_points_2.append(a[0][0])
  \<close>
\<close>

definition common_step ::
  "pt2 list \<Rightarrow> pt2 list \<Rightarrow> nat list \<times> nat list \<Rightarrow> nat \<Rightarrow> nat list \<times> nat list" where
  "common_step image_points_1 image_points_2 acc i =
     (case acc of (cm_points_1, cm_points_2) \<Rightarrow>
        (let a = np_where_rows 0 image_points_2 (image_points_1 ! i)
         in if a \<noteq> [] then (cm_points_1 @ [i], cm_points_2 @ [hd a])
            else (cm_points_1, cm_points_2)))"

definition common_loop :: "pt2 list \<Rightarrow> pt2 list \<Rightarrow> nat list \<times> nat list" where
  "common_loop image_points_1 image_points_2 =
     foldl (common_step image_points_1 image_points_2) ([], []) [0..<length image_points_1]"

text \<open>
  \<^verbatim>\<open>
  mask_array_1 = np.ma.array(image_points_2, mask=False)
  mask_array_1.mask[cm_points_2] = True
  mask_array_1 = mask_array_1.compressed()
  mask_array_1 = mask_array_1.reshape(int(mask_array_1.shape[0]/2), 2)
  \<close>
  The mask has one flag for each row (the assignment masks whole rows): all false at
  first, then true at the rows of the index list; an index past the last row raises
  IndexError. \<^verbatim>\<open>compressed\<close> and the reshape keep the rows that are not masked.
\<close>

definition mask_rows :: "nat \<Rightarrow> nat list \<Rightarrow> py_error + bool list" where
  "mask_rows n idx =
     (if list_all (\<lambda>j. j < n) idx then Inr (fold (\<lambda>j m. m[j := True]) idx (replicate n False))
      else Inl IndexError)"

definition compressed :: "'a list \<Rightarrow> bool list \<Rightarrow> 'a list" where
  "compressed arr msk = map fst (filter (\<lambda>(r, m). \<not> m) (zip arr msk))"

definition find_common_points ::
  "pt2 list \<Rightarrow> pt2 list \<Rightarrow> pt2 list \<Rightarrow>
   py_error + (nat list \<times> nat list \<times> pt2 list \<times> pt2 list)" where
  "find_common_points image_points_1 image_points_2 image_points_3 =
     (case common_loop image_points_1 image_points_2 of (cm_points_1, cm_points_2) \<Rightarrow>
        (case mask_rows (length image_points_2) cm_points_2 of
           Inl e \<Rightarrow> Inl e
         | Inr mask_1 \<Rightarrow>
             (let mask_array_1 = compressed image_points_2 mask_1 in
              case mask_rows (length image_points_3) cm_points_2 of
                Inl e \<Rightarrow> Inl e
              | Inr mask_2 \<Rightarrow>
                  (let mask_array_2 = compressed image_points_3 mask_2
                   in Inr (cm_points_1, cm_points_2, mask_array_1, mask_array_2)))))"

text \<open>
  The linking as the specification words it, for comparison: a new-pair observation \<open>j\<close>
  is known if and only if it is equal, in both coordinates, to some previous-pair
  observation, and it is linked to the first previous index that matches it.
\<close>

definition spec_linked_pairs :: "pt2 list \<Rightarrow> pt2 list \<Rightarrow> (nat \<times> nat) list" where
  "spec_linked_pairs image_points_1 image_points_2 =
     map (\<lambda>j. (hd (filter (\<lambda>i. image_points_1 ! i = image_points_2 ! j)
                          [0..<length image_points_1]), j))
         (filter (\<lambda>j. image_points_2 ! j \<in> set image_points_1) [0..<length image_points_2])"

section \<open>Point Cloud Exporter: \<^verbatim>\<open>save_to_ply\<close>\<close>

text \<open>
  \<^verbatim>\<open>np.mean\<close> of a vector, and of the rows of an \<open>N\<times>3\<close> array (\<^verbatim>\<open>axis=0\<close>). On an empty
  array numpy gives \<open>nan\<close> where HOL's division gives 0; the filter below then has no
  row to keep in either.
\<close>

definition np_mean :: "real list \<Rightarrow> real" where
  "np_mean xs = sum_list xs / real (length xs)"

definition mean_axis0 :: "vec3 list \<Rightarrow> vec3" where
  "mean_axis0 ps =
     (np_mean (map fst ps), np_mean (map (\<lambda>p. fst (snd p)) ps),
      np_mean (map (\<lambda>p. snd (snd p)) ps))"

text \<open>\<^verbatim>\<open>np.sqrt(v[:,0]**2 + v[:,1]**2 + v[:,2]**2)\<close>, for one row.\<close>

fun norm3 :: "vec3 \<Rightarrow> real" where
  "norm3 (x, y, z) = sqrt (x\<^sup>2 + y\<^sup>2 + z\<^sup>2)"

text \<open>
  A vertex is a row of \<^verbatim>\<open>verts\<close>: its three coordinates and its colour.
  \<^verbatim>\<open>
  mean = np.mean(verts[:,:3], axis=0)
  scaled_verts = verts[:,:3] - mean
  dist = np.sqrt(scaled_verts[:,0]**2 + scaled_verts[:,1]**2 + scaled_verts[:,2]**2)
  indx = np.where(dist < np.mean(dist) + 300)
  verts = verts[indx]
  \<close>
\<close>

definition centroid_filter :: "(vec3 \<times> 'c) list \<Rightarrow> (vec3 \<times> 'c) list" where
  "centroid_filter verts =
     (let mean = mean_axis0 (map fst verts);
          scaled_verts = map (\<lambda>v. sub3 (fst v) mean) verts;
          dist = map norm3 scaled_verts;
          indx = filter (\<lambda>i. dist ! i < np_mean dist + 300) [0..<length dist]
      in map (\<lambda>i. verts ! i) indx)"

text \<open>
  \<^verbatim>\<open>
  out_points = point_cloud.reshape(-1,3) * 200
  out_colors = colors.reshape(-1, 3)
  verts = np.hstack([out_points, out_colors])
  \<close>
  then the filter above, and the surviving rows are written to the file, after a header
  that holds their number. The result is the list of the rows written; \<^verbatim>\<open>np.hstack\<close>
  raises ValueError when the two arrays differ in their number of rows. The arguments
  that only name the output file are left out.
\<close>

definition save_to_ply :: "vec3 list \<Rightarrow> 'c list \<Rightarrow> py_error + (vec3 \<times> 'c) list" where
  "save_to_ply point_cloud colors =
     (let out_points = map (scale3 200) point_cloud;
          out_colors = colors
      in if length out_points \<noteq> length out_colors then Inl ValueError
         else Inr (centroid_filter (zip out_points out_colors)))"

text \<open>
  The finalization as the specification words it, for comparison: every point whose
  distance to the centroid exceeds the mean distance plus 300 is dropped, and the
  surviving points are then scaled by 200.
\<close>

definition spec_outlier_filter :: "(vec3 \<times> 'c) list \<Rightarrow> (vec3 \<times> 'c) list" where
  "spec_outlier_filter verts =
     (let centroid = mean_axis0 (map fst verts);
          dist = map (\<lambda>v. norm3 (sub3 (fst v) centroid)) verts
      in filter (\<lambda>v. \<not> norm3 (sub3 (fst v) centroid) > np_mean dist + 300) verts)"

definition spec_finalize :: "vec3 list \<Rightarrow> 'c list \<Rightarrow> py_error + (vec3 \<times> 'c) list" where
  "spec_finalize point_cloud colors =
     (if length point_cloud \<noteq> length colors then Inl ValueError
      else Inr (map (apfst (scale3 200)) (spec_outlier_filter (zip point_cloud colors))))"

text \<open>
  The filter with a margin \<open>t\<close> in place of 300, on rows in any unit: a row is kept when
  its distance to the centroid is strictly less than the mean distance plus \<open>t\<close>.
\<close>

definition distance_filter :: "real \<Rightarrow> (vec3 \<times> 'c) list \<Rightarrow> (vec3 \<times> 'c) list" where
  "distance_filter t verts =
     (let centroid = mean_axis0 (map fst verts);
          dist = map (\<lambda>v. norm3 (sub3 (fst v) centroid)) verts
      in filter (\<lambda>v. norm3 (sub3 (fst v) centroid) < np_mean dist + t) verts)"

text \<open>The precondition of the idempotence claim as the specification words it: every
  point lies within the mean distance plus 300 of the centroid.\<close>

definition within_margin :: "(vec3 \<times> 'c) list \<Rightarrow> bool" where
  "within_margin verts =
     (let centroid = mean_axis0 (map fst verts);
          dist = map (\<lambda>v. norm3 (sub3 (fst v) centroid)) verts
      in list_all (\<lambda>v. norm3 (sub3 (fst v) centroid) \<le> np_mean dist + 300) verts)"

section \<open>Reprojection Evaluator: \<^verbatim>\<open>reproj_error\<close>\<close>

text \<open>
  An array of two dimensions whose shape the code does not fix is the list of its rows.
  \<^verbatim>\<open>cv2.norm(a, b, cv2.NORM_L2)\<close> is the square root of the sum, over all entries, of the
  squared differences of \<open>a\<close> and \<open>b\<close>; OpenCV raises when the two shapes differ.
\<close>

definition cv2_norm_L2 :: "real list list \<Rightarrow> real list list \<Rightarrow> py_error + real" where
  "cv2_norm_L2 a b =
     (if map length a \<noteq> map length b then Inl cv2_error
      else Inr (sqrt (sum_list (map (\<lambda>(r, s). sum_list (map (\<lambda>(x, y). (x - y)\<^sup>2) (zip r s)))
                                   (zip a b)))))"

text \<open>
  \<^verbatim>\<open>
  rot_matrix = transform_matrix[:3,:3]
  tran_vector = transform_matrix[:3, 3]
  rot_vector, _ = cv2.Rodrigues(rot_matrix)
  if homogenity == 1:
      obj_points = cv2.convertPointsFromHomogeneous(obj_points.T)
  image_points_calc, _ = cv2.projectPoints(obj_points, rot_vector, tran_vector, K, None)
  image_points_calc = np.float32(image_points_calc[:,0,:])
  total_error = cv2.norm(image_points_calc,
      np.float32(image_points.T) if homogenity == 1 else np.float32(image_points),
      cv2.NORM_L2)
  return total_error / len(image_points_calc), obj_points
  \<close>
  OpenCV's functions are parameters: \<open>Rodrigues\<close>, \<open>convertPointsFromHomogeneous_T\<close> (the
  conversion of the transposed array) and \<open>projectPoints\<close>, which gives the \<open>N\<times>2\<close> array
  \<^verbatim>\<open>image_points_calc[:,0,:]\<close> or raises. The rounding of \<^verbatim>\<open>np.float32\<close> is left out.
  Dividing by the length of an empty array raises ZeroDivisionError.
\<close>

definition reproj_error ::
  "(mat33 \<Rightarrow> 'rv) \<Rightarrow> ('o \<Rightarrow> 'o) \<Rightarrow> ('o \<Rightarrow> 'rv \<Rightarrow> vec3 \<Rightarrow> mat33 \<Rightarrow> py_error + real list list) \<Rightarrow>
   'o \<Rightarrow> real list list \<Rightarrow> mat34 \<Rightarrow> mat33 \<Rightarrow> int \<Rightarrow> py_error + (real \<times> 'o)" where
  "reproj_error Rodrigues convertPointsFromHomogeneous_T projectPoints
       obj_points image_points transform_matrix K homogenity =
     (let rot_matrix = rot_part transform_matrix;
          tran_vector = tran_part transform_matrix;
          rot_vector = Rodrigues rot_matrix;
          obj_points = (if homogenity = 1 then convertPointsFromHomogeneous_T obj_points
                        else obj_points)
      in case projectPoints obj_points rot_vector tran_vector K of
           Inl e \<Rightarrow> Inl e
         | Inr image_points_calc \<Rightarrow>
             (case cv2_norm_L2 image_points_calc
                     (if homogenity = 1 then transpose image_points else image_points) of
                Inl e \<Rightarrow> Inl e
              | Inr total_error \<Rightarrow>
                  if length image_points_calc = 0 then Inl ZeroDivisionError
                  else Inr (total_error / real (length image_points_calc), obj_points)))"

text \<open>
  OpenCV's projection without distortion, for a list of points and a rotation given as a
  matrix: the point \<open>R X + t = (x, y, z)\<close> goes to \<open>(f\<^sub>x x / z + c\<^sub>x, f\<^sub>y y / z + c\<^sub>y)\<close>.
  It instantiates the parameter \<open>projectPoints\<close> in the examples.
\<close>

fun pinhole :: "mat33 \<Rightarrow> vec3 \<Rightarrow> real list" where
  "pinhole ((fx, s, cx), (k10, fy, cy), r2) (x, y, z) = [fx * (x / z) + cx, fy * (y / z) + cy]"

definition pinhole_projectPoints ::
  "vec3 list \<Rightarrow> mat33 \<Rightarrow> vec3 \<Rightarrow> mat33 \<Rightarrow> py_error + real list list" where
  "pinhole_projectPoints obj_points rot_matrix tran_vector K =
     Inr (map (\<lambda>X. pinhole K (add3 (matvec33 rot_matrix X) tran_vector)) obj_points)"

text \<open>
  The Euclidean distance of two points, and the error as the specification words it, for
  comparison: the mean of the distances between each projected point and its observed
  point.
\<close>

definition point_distance :: "real list \<Rightarrow> real list \<Rightarrow> real" where
  "point_distance r s = sqrt (sum_list (map (\<lambda>(x, y). (x - y)\<^sup>2) (zip r s)))"

definition spec_mean_distance :: "real list list \<Rightarrow> real list list \<Rightarrow> real" where
  "spec_mean_distance calc observed =
     sum_list (map (\<lambda>(r, s). point_distance r s) (zip calc observed)) / real (length calc)"

section \<open>Bundle Adjuster: \<^verbatim>\<open>compute_bundle_adjustment\<close>\<close>



fun reshape33 :: "real list \<Rightarrow> py_error + mat33" where
  "reshape33 [a00, a01, a02, a10, a11, a12, a20, a21, a22] =
     Inr ((a00, a01, a02), (a10, a11, a12), (a20, a21, a22))"
| "reshape33 xs = Inl ValueError"

fun reshape34 :: "real list \<Rightarrow> py_error + mat34" where
  "reshape34 [a00, a01, a02, a03, a10, a11, a12, a13, a20, a21, a22, a23] =
     Inr ((a00, a01, a02, a03), (a10, a11, a12, a13), (a20, a21, a22, a23))"
| "reshape34 xs = Inl ValueError"

text \<open>\<^verbatim>\<open>xs.reshape((int(len(xs)/3), 3))\<close>.\<close>

fun rows3 :: "real list \<Rightarrow> vec3 list" where
  "rows3 (x # y # z # xs) = (x, y, z) # rows3 xs"
| "rows3 xs = []"

definition reshape_N3 :: "real list \<Rightarrow> py_error + vec3 list" where
  "reshape_N3 xs = (if length xs mod 3 = 0 then Inr (rows3 xs) else Inl ValueError)"

text \<open>\<^verbatim>\<open>xs.reshape((2, int(rest/2))).T\<close>: the first half of \<open>xs\<close> is the first column of the
  result and the second half the second column.\<close>

definition reshape_2N_T :: "real list \<Rightarrow> nat \<Rightarrow> py_error + real list list" where
  "reshape_2N_T xs rest =
     (if length xs = 2 * (rest div 2)
      then Inr (map (\<lambda>i. [xs ! i, xs ! (rest div 2 + i)]) [0..<rest div 2])
      else Inl ValueError)"

text \<open>\<^verbatim>\<open>xs[a:b]\<close>, and \<^verbatim>\<open>int(n * 0.4)\<close> for a length \<open>n\<close>: the product of the float nearest
  to 0.4 is never below \<open>2n/5\<close> and never reaches the next integer, so the truncation is
  \<open>2n div 5\<close>.\<close>

definition slice :: "nat \<Rightarrow> nat \<Rightarrow> 'a list \<Rightarrow> 'a list" where
  "slice a b xs = take (b - a) (drop a xs)"

definition int_0_4 :: "nat \<Rightarrow> nat" where
  "int_0_4 n = (2 * n) div 5"

text \<open>
  \<^verbatim>\<open>
  K = values_corrected[12:21].reshape((3,3))
  rest = int(len(values_corrected[21:]) * 0.4)
  return values_corrected[21+rest:].reshape((int(len(values_corrected[21+rest:])/3), 3)),
         values_corrected[21:21 + rest].reshape((2, int(rest/2))).T,
         values_corrected[0:12].reshape((3,4))
  \<close>
  The refined intrinsics are bound to the local name \<^verbatim>\<open>K\<close> and are not returned.
\<close>

definition ba_unpack ::
  "real list \<Rightarrow> py_error + (vec3 list \<times> real list list \<times> mat34)" where
  "ba_unpack values_corrected =
     (case reshape33 (slice 12 21 values_corrected) of
        Inl e \<Rightarrow> Inl e
      | Inr K \<Rightarrow>
          (let rest = int_0_4 (length (drop 21 values_corrected)) in
           case reshape_N3 (drop (21 + rest) values_corrected) of
             Inl e \<Rightarrow> Inl e
           | Inr points \<Rightarrow>
               (case reshape_2N_T (slice 21 (21 + rest) values_corrected) rest of
                  Inl e \<Rightarrow> Inl e
                | Inr opt \<Rightarrow>
                    (case reshape34 (slice 0 12 values_corrected) of
                       Inl e \<Rightarrow> Inl e
                     | Inr transform_matrix \<Rightarrow> Inr (points, opt, transform_matrix)))))"



section \<open>Image loader and the driver's state\<close>

text \<open>
  \<^verbatim>\<open>ImageLoader\<close>: the intrinsics read from \<^verbatim>\<open>K.txt\<close>, the sorted image paths, the working
  directory and the downscale factor.
  \<^verbatim>\<open>
  self.K[0, 0] /= self.factor
  self.K[1, 1] /= self.factor
  self.K[0, 2] /= self.factor
  self.K[1, 2] /= self.factor
  \<close>
  (For a factor 0 numpy stores \<open>inf\<close> or \<open>nan\<close>, which the reals do not have.)
\<close>

record ImageLoader =
  K :: mat33
  image_list :: "string list"
  path :: string
  factor :: real

definition downscale_instrinsics :: "ImageLoader \<Rightarrow> ImageLoader" where
  "downscale_instrinsics self =
     (case K self of ((k00, k01, k02), (k10, k11, k12), k2) \<Rightarrow>
        self\<lparr>K := ((k00 / factor self, k01, k02 / factor self),
                   (k10, k11 / factor self, k12 / factor self), k2)\<rparr>)"

text \<open>\<^verbatim>\<open>ImageLoader.__init__\<close>, given what it reads from the directory: the matrix of
  \<^verbatim>\<open>K.txt\<close>, the image paths and the working directory.\<close>

definition ImageLoader_init :: "mat33 \<Rightarrow> string list \<Rightarrow> string \<Rightarrow> real \<Rightarrow> ImageLoader" where
  "ImageLoader_init K_txt images cwd downscale_factor =
     downscale_instrinsics
       \<lparr>K = K_txt, image_list = images, path = cwd, factor = downscale_factor\<rparr>"



section \<open>Properties\<close>

text \<open>
  C7. The second view's pose has rotation \<open>R \<cdot> R0\<close> and translation \<open>t0 + R0 \<cdot> t\<close>, where
  \<open>(R0, t0)\<close> is the first view's pose and \<open>(R, t)\<close> the recovered relative motion: entry
  \<open>(i, j)\<close> of the rotation is the sum over \<open>k\<close> of \<open>R\<^sub>i\<^sub>k R0\<^sub>k\<^sub>j\<close>, and entry \<open>i\<close> of the
  translation is \<open>t0\<^sub>i\<close> plus the sum over \<open>k\<close> of \<open>R0\<^sub>i\<^sub>k t\<^sub>k\<close>. From the identity pose with
  zero translation, which is the first pose of every run, the composed pose is \<open>(R, t)\<close>
  itself.
\<close>

theorem bootstrap_pose_composition:
  "bootstrap_pose ((a00, a01, a02, p0), (a10, a11, a12, p1), (a20, a21, a22, p2))
       ((r00, r01, r02), (r10, r11, r12), (r20, r21, r22)) (t0, t1, t2)
     = ((r00 * a00 + r01 * a10 + r02 * a20,
         r00 * a01 + r01 * a11 + r02 * a21,
         r00 * a02 + r01 * a12 + r02 * a22,
         p0 + (a00 * t0 + a01 * t1 + a02 * t2)),
        (r10 * a00 + r11 * a10 + r12 * a20,
         r10 * a01 + r11 * a11 + r12 * a21,
         r10 * a02 + r11 * a12 + r12 * a22,
         p1 + (a10 * t0 + a11 * t1 + a12 * t2)),
        (r20 * a00 + r21 * a10 + r22 * a20,
         r20 * a01 + r21 * a11 + r22 * a21,
         r20 * a02 + r21 * a12 + r22 * a22,
         p2 + (a20 * t0 + a21 * t1 + a22 * t2)))
   \<and> bootstrap_pose transform_matrix_0_init
         ((r00, r01, r02), (r10, r11, r12), (r20, r21, r22)) (t0, t1, t2)
     = ((r00, r01, r02, t0), (r10, r11, r12, t1), (r20, r21, r22, t2))"
  by (simp add: bootstrap_pose_def transform_matrix_0_init_def)

subsection \<open>Ratio test\<close>

lemma take_rows_Inr:
  "take_rows arr idx = Inr out \<Longrightarrow>
     out = map (\<lambda>j. arr ! j) idx \<and> (\<forall>j \<in> set idx. j < length arr)"
  by (auto simp: take_rows_def list_all_iff split: if_splits)

lemma ratio_test_sound:
  "ratio_test matches = Inr feature \<Longrightarrow> m \<in> set feature \<Longrightarrow>
     \<exists>n. [m, n] \<in> set matches \<and> distance m < 0.70 * distance n"
proof (induction matches arbitrary: feature)
  case Nil
  then show ?case by simp
next
  case (Cons row matches)
  from Cons.prems(1) obtain a b where row: "row = [a, b]"
    by (auto split: list.splits)
  from Cons.prems(1) row obtain rest where rest: "ratio_test matches = Inr rest"
    and feature: "feature = (if distance a < 0.70 * distance b then a # rest else rest)"
    by (auto split: sum.splits)
  show ?case
  proof (cases "m \<in> set rest")
    case True
    from Cons.IH [OF rest True] show ?thesis by auto
  next
    case False
    with Cons.prems(2) feature have "m = a \<and> distance a < 0.70 * distance b"
      by (auto split: if_splits)
    with row show ?thesis by auto
  qed
qed

text \<open>
  C9. Every pair of points that the Correspondence Finder returns comes from a match \<open>m\<close>
  of a row \<open>[m, n]\<close> of the matcher's result whose distance is strictly less than 0.70
  times the distance of the second-nearest neighbour \<open>n\<close>: index \<open>k\<close> of both returned
  arrays holds the two keypoints of such a match.
\<close>

theorem feature_matching_ratio_test:
  assumes "feature_matching detectAndCompute knnMatch image_0 image_1 = Inr (pts0, pts1)"
  shows "\<exists>feature.
           length pts0 = length feature \<and> length pts1 = length feature \<and>
           (\<forall>k < length feature.
              (\<exists>n. [feature ! k, n] \<in>
                      set (knnMatch (snd (detectAndCompute image_0))
                                    (snd (detectAndCompute image_1)))
                    \<and> distance (feature ! k) < 0.70 * distance n)
              \<and> pts0 ! k = fst (detectAndCompute image_0) ! queryIdx (feature ! k)
              \<and> pts1 ! k = fst (detectAndCompute image_1) ! trainIdx (feature ! k))"
proof -
  obtain kp0 d0 where dc0: "detectAndCompute image_0 = (kp0, d0)"
    by (cases "detectAndCompute image_0")
  obtain kp1 d1 where dc1: "detectAndCompute image_1 = (kp1, d1)"
    by (cases "detectAndCompute image_1")
  from assms dc0 dc1 obtain feature where
    rt: "ratio_test (knnMatch d0 d1) = Inr feature"
    and t0: "take_rows kp0 (map queryIdx feature) = Inr pts0"
    and t1: "take_rows kp1 (map trainIdx feature) = Inr pts1"
    by (auto simp: feature_matching_def split: sum.splits)
  have p0: "pts0 = map (\<lambda>j. kp0 ! j) (map queryIdx feature)"
    using take_rows_Inr [OF t0] by simp
  have p1: "pts1 = map (\<lambda>j. kp1 ! j) (map trainIdx feature)"
    using take_rows_Inr [OF t1] by simp
  have "\<forall>k < length feature.
          \<exists>n. [feature ! k, n] \<in> set (knnMatch d0 d1)
              \<and> distance (feature ! k) < 0.70 * distance n"
    using ratio_test_sound [OF rt] by simp
  then show ?thesis
    using p0 p1 dc0 dc1 by (intro exI [of _ feature]) simp
qed

theorem feature_matching_ratio_test_witness:
  "feature_matching
     (\<lambda>i::nat. if i = 0 then ([(1, 2), (3, 4)], ()) else ([(5, 6), (7, 8)], ()))
     (\<lambda>(_::unit) (_::unit).
             [[\<lparr>distance = 1, queryIdx = 0, trainIdx = 1\<rparr>,
               \<lparr>distance = 2, queryIdx = 0, trainIdx = 0\<rparr>],
              [\<lparr>distance = 5, queryIdx = 1, trainIdx = 0\<rparr>,
               \<lparr>distance = 6, queryIdx = 1, trainIdx = 1\<rparr>]])
     0 1 = Inr ([(1, 2)], [(7, 8)])
   \<and> (\<exists>feature :: DMatch list. length [(1::real, 2::real)] = length feature
         \<and> distance (feature ! 0) < 0.70 * 2)"
proof -
  let ?dc = "\<lambda>i::nat. if i = 0 then ([(1::real, 2::real), (3, 4)], ())
                      else ([(5, 6), (7, 8)], ())"
  let ?knn = "\<lambda>(_::unit) (_::unit).
                [[\<lparr>distance = 1, queryIdx = 0, trainIdx = 1\<rparr>,
                  \<lparr>distance = 2, queryIdx = 0, trainIdx = 0\<rparr>],
                 [\<lparr>distance = 5, queryIdx = 1, trainIdx = 0\<rparr>,
                  \<lparr>distance = 6, queryIdx = 1, trainIdx = 1\<rparr>]]"
  have run: "feature_matching ?dc ?knn 0 1 = Inr ([(1, 2)], [(7, 8)])"
    by (simp add: feature_matching_def take_rows_def)
  from feature_matching_ratio_test [OF run] obtain feature where
    len: "length [(1::real, 2::real)] = length feature"
    and all: "\<forall>k < length feature.
       (\<exists>n. [feature ! k, n] \<in> set (?knn (snd (?dc 0)) (snd (?dc 1)))
            \<and> distance (feature ! k) < 0.70 * distance n)
       \<and> [(1::real, 2::real)] ! k = fst (?dc 0) ! queryIdx (feature ! k)
       \<and> [(7::real, 8::real)] ! k = fst (?dc 1) ! trainIdx (feature ! k)"
    by blast
  from len have "0 < length feature" by (cases feature) simp_all
  with all obtain n where
    n: "[feature ! 0, n] \<in> set (?knn (snd (?dc 0)) (snd (?dc 1)))"
    and lt: "distance (feature ! 0) < 0.70 * distance n" by blast
  from n lt have "distance (feature ! 0) < 0.70 * 2"
    by auto
  with len have "\<exists>feature :: DMatch list. length [(1::real, 2::real)] = length feature
                    \<and> distance (feature ! 0) < 0.70 * 2"
    by blast
  with run show ?thesis by (rule_tac conjI)
qed

subsection \<open>Triangulation\<close>

text \<open>
  C10. The array that \<^verbatim>\<open>triangulation\<close> returns is the raw homogeneous result of
  \<^verbatim>\<open>cv2.triangulatePoints\<close> with every point divided, coordinate by coordinate, by its
  own fourth coordinate \<open>w\<close>, and nothing guards the division: a point with \<open>w \<noteq> 0\<close>
  comes back as \<open>(x/w, y/w, z/w, 1)\<close>, and a point with \<open>w = 0\<close> comes back with no
  coordinate a number.
\<close>

theorem triangulation_fourth_coordinate:
  "let raw = triangulatePoints pts_2d_1 pts_2d_2 (T_N2 proj_matrix_1) (T_N2 proj_matrix_2);
       cloud = snd (snd (triangulation triangulatePoints pts_2d_1 pts_2d_2
                           proj_matrix_1 proj_matrix_2))
   in length cloud = length raw \<and>
      (\<forall>k < length raw.
         case raw ! k of (x, y, z, w) \<Rightarrow>
           cloud ! k = (np_divide x w, np_divide y w, np_divide z w, np_divide w w) \<and>
           (w \<noteq> 0 \<longrightarrow> cloud ! k = (Some (x / w), Some (y / w), Some (z / w), Some 1)) \<and>
           (w = 0 \<longrightarrow> cloud ! k = (None, None, None, None)))"
  by (auto simp: Let_def triangulation_def np_divide_def split: prod.splits)

theorem triangulation_fourth_coordinate_witness:
  "(2::real) \<noteq> 0 \<and>
   snd (snd (triangulation (\<lambda>(_::unit) (_::unit) _ _. [(2, 4, 6, 2), (1, 1, 1, 0)])
               () () [(0, 0), (1, 1)] [(0, 0), (1, 1)])) ! 0
     = (Some 1, Some 2, Some 3, Some 1) \<and>
   snd (snd (triangulation (\<lambda>(_::unit) (_::unit) _ _. [(2, 4, 6, 2), (1, 1, 1, 0)])
               () () [(0, 0), (1, 1)] [(0, 0), (1, 1)])) ! 1
     = (None, None, None, None)"
proof -
  let ?tri = "\<lambda>(_::unit) (_::unit) (_::real list \<times> real list) (_::real list \<times> real list).
                [(2::real, 4::real, 6::real, 2::real), (1, 1, 1, 0)]"
  note t = triangulation_fourth_coordinate
             [of ?tri "()" "()" "[(0, 0), (1, 1)]" "[(0, 0), (1, 1)]", unfolded Let_def]
  from t [THEN conjunct2, THEN spec, of 0] have c0:
    "snd (snd (triangulation ?tri () () [(0, 0), (1, 1)] [(0, 0), (1, 1)])) ! 0
       = (Some 1, Some 2, Some 3, Some 1)"
    by (simp add: np_divide_def)
  from t [THEN conjunct2, THEN spec, of 1] have c1:
    "snd (snd (triangulation ?tri () () [(0, 0), (1, 1)] [(0, 0), (1, 1)])) ! 1
       = (None, None, None, None)"
    by (simp add: np_divide_def)
  from c0 c1 show ?thesis by simp
qed

subsection \<open>Inlier pruning\<close>

text \<open>
  C5. When the solver returns inlier indices, each of the three arrays that
  \<^verbatim>\<open>solve_PnP\<close> returns holds exactly the rows of its input array at these indices, in
  the order of the indices (the input arrays as the solver sees them: for \<open>initial = 1\<close>
  after the reshaping of the first lines). So the three returned arrays have the length
  of the index list, and row \<open>k\<close> of each comes from the same input row.
\<close>

theorem solve_PnP_inlier_pruning:
  assumes "pnp_arrays obj_point image_point rot_vector initial = Inr (obj_in, img_in, aux_in)"
    and "solvePnPRansac obj_in img_in intr dist_coeff = Inr (rvec, tvec, Some idx)"
    and "solve_PnP solvePnPRansac Rodrigues obj_point image_point intr dist_coeff
           rot_vector initial = Inr (rot_matrix, tran_vector, img_out, obj_out, aux_out)"
  shows "rows img_out = map (\<lambda>j. rows img_in ! j) idx
       \<and> rows obj_out = map (\<lambda>j. rows obj_in ! j) idx
       \<and> rows aux_out = map (\<lambda>j. rows aux_in ! j) idx
       \<and> length (rows img_out) = length idx
       \<and> length (rows obj_out) = length idx
       \<and> length (rows aux_out) = length idx
       \<and> (\<forall>j \<in> set idx. j < length (rows img_in) \<and> j < length (rows obj_in)
                          \<and> j < length (rows aux_in))
       \<and> rot_matrix = Rodrigues rvec \<and> tran_vector = tvec"
proof -
  from assms obtain i' o' a' where
    ti: "take_rows (rows img_in) idx = Inr i'"
    and to: "take_rows (rows obj_in) idx = Inr o'"
    and ta: "take_rows (rows aux_in) idx = Inr a'"
    and out: "img_out = Arr i'" "obj_out = Arr o'" "aux_out = Arr a'"
             "rot_matrix = Rodrigues rvec" "tran_vector = tvec"
    by (auto simp: solve_PnP_def Let_def split: sum.splits)
  from take_rows_Inr [OF ti] take_rows_Inr [OF to] take_rows_Inr [OF ta] out
  show ?thesis by simp
qed

theorem solve_PnP_inlier_pruning_witness:
  "solve_PnP (\<lambda>_ _ (_::unit) (_::unit). Inr ((), (), Some [2, 0])) (\<lambda>_::unit. ())
     (Arr [Arr [Num 1, Num 1, Num 1], Arr [Num 2, Num 2, Num 2], Arr [Num 3, Num 3, Num 3]])
     (Arr [Arr [Num 10, Num 11], Arr [Num 20, Num 21], Arr [Num 30, Num 31]])
     () ()
     (Arr [Arr [Num 40, Num 41], Arr [Num 50, Num 51], Arr [Num 60, Num 61]]) 0
   = Inr ((), (), Arr [Arr [Num 30, Num 31], Arr [Num 10, Num 11]],
          Arr [Arr [Num 3, Num 3, Num 3], Arr [Num 1, Num 1, Num 1]],
          Arr [Arr [Num 60, Num 61], Arr [Num 40, Num 41]])
   \<and> length (rows (Arr [Arr [Num 30, Num 31], Arr [Num 10, Num 11]])) = length [2::nat, 0]"
proof -
  let ?solver = "\<lambda>(_::ndarray) (_::ndarray) (_::unit) (_::unit).
                   (Inr ((), (), Some [2, 0]) :: py_error + (unit \<times> unit \<times> nat list option))"
  let ?obj = "Arr [Arr [Num 1, Num 1, Num 1], Arr [Num 2, Num 2, Num 2],
                   Arr [Num 3, Num 3, Num 3]]"
  let ?img = "Arr [Arr [Num 10, Num 11], Arr [Num 20, Num 21], Arr [Num 30, Num 31]]"
  let ?aux = "Arr [Arr [Num 40, Num 41], Arr [Num 50, Num 51], Arr [Num 60, Num 61]]"
  have a: "pnp_arrays ?obj ?img ?aux 0 = Inr (?obj, ?img, ?aux)"
    by (simp add: pnp_arrays_def)
  have s: "?solver ?obj ?img () () = Inr ((), (), Some [2, 0])"
    by simp
  have run: "solve_PnP ?solver (\<lambda>_::unit. ()) ?obj ?img () () ?aux 0
     = Inr ((), (), Arr [Arr [Num 30, Num 31], Arr [Num 10, Num 11]],
            Arr [Arr [Num 3, Num 3, Num 3], Arr [Num 1, Num 1, Num 1]],
            Arr [Arr [Num 60, Num 61], Arr [Num 40, Num 41]])"
    by (simp add: solve_PnP_def pnp_arrays_def take_rows_def)
  from solve_PnP_inlier_pruning [OF a s run] run show ?thesis
    by simp
qed

subsection \<open>Track Linker\<close>

lemma np_where_rows_Nil:
  "(np_where_rows j qs p = []) = (\<forall>q \<in> set qs. fst q \<noteq> fst p \<and> snd q \<noteq> snd p)"
  by (induction qs arbitrary: j) auto

lemma np_where_rows_hd:
  "np_where_rows j qs p \<noteq> [] \<Longrightarrow>
     \<exists>k < length qs. hd (np_where_rows j qs p) = j + k
        \<and> (fst (qs ! k) = fst p \<or> snd (qs ! k) = snd p)
        \<and> (\<forall>k' < k. fst (qs ! k') \<noteq> fst p \<and> snd (qs ! k') \<noteq> snd p)"
proof (induction qs arbitrary: j)
  case Nil
  then show ?case by simp
next
  case (Cons q qs)
  show ?case
  proof (cases "fst q = fst p \<or> snd q = snd p")
    case True
    then have "hd (np_where_rows j (q # qs) p) = j + 0" by auto
    with True show ?thesis by (intro exI [of _ 0]) simp
  next
    case False
    with Cons.prems have ne: "np_where_rows (Suc j) qs p \<noteq> []" by simp
    from Cons.IH [OF ne] obtain k where k: "k < length qs"
      "hd (np_where_rows (Suc j) qs p) = Suc j + k"
      "fst (qs ! k) = fst p \<or> snd (qs ! k) = snd p"
      "\<forall>k' < k. fst (qs ! k') \<noteq> fst p \<and> snd (qs ! k') \<noteq> snd p"
      by blast
    have "\<forall>k' < Suc k. fst ((q # qs) ! k') \<noteq> fst p \<and> snd ((q # qs) ! k') \<noteq> snd p"
      using False k(4) by (auto simp: less_Suc_eq_0_disj)
    with False k show ?thesis by (intro exI [of _ "Suc k"]) simp
  qed
qed

lemma foldl_common_step:
  "foldl (common_step ip1 ip2) (c1, c2) ixs =
     (c1 @ filter (\<lambda>i. np_where_rows 0 ip2 (ip1 ! i) \<noteq> []) ixs,
      c2 @ map (\<lambda>i. hd (np_where_rows 0 ip2 (ip1 ! i)))
             (filter (\<lambda>i. np_where_rows 0 ip2 (ip1 ! i) \<noteq> []) ixs))"
  by (induction ixs arbitrary: c1 c2) (simp_all add: common_step_def Let_def)

lemma common_loop_eq:
  "common_loop ip1 ip2 =
     (filter (\<lambda>i. np_where_rows 0 ip2 (ip1 ! i) \<noteq> []) [0..<length ip1],
      map (\<lambda>i. hd (np_where_rows 0 ip2 (ip1 ! i)))
          (filter (\<lambda>i. np_where_rows 0 ip2 (ip1 ! i) \<noteq> []) [0..<length ip1]))"
  by (simp add: common_loop_def foldl_common_step)

lemma fold_mask_length: "length (fold (\<lambda>j m. m[j := True]) idx m) = length m"
  by (induction idx arbitrary: m) simp_all

lemma fold_mask_nth:
  "k < length m \<Longrightarrow> fold (\<lambda>j m. m[j := True]) idx m ! k = (m ! k \<or> k \<in> set idx)"
proof (induction idx arbitrary: m)
  case Nil
  then show ?case by simp
next
  case (Cons a idx)
  have "fold (\<lambda>j m. m[j := True]) (a # idx) m ! k
          = fold (\<lambda>j m. m[j := True]) idx (m[a := True]) ! k"
    by simp
  also have "\<dots> = (m[a := True] ! k \<or> k \<in> set idx)"
    using Cons.IH [of "m[a := True]"] Cons.prems by simp
  also have "\<dots> = (m ! k \<or> k \<in> set (a # idx))"
    using Cons.prems by (cases "a = k") (auto simp: nth_list_update)
  finally show ?case .
qed

lemma mask_rows_Inr:
  assumes "mask_rows n idx = Inr msk"
  shows "length msk = n" and "\<And>k. k < n \<Longrightarrow> msk ! k = (k \<in> set idx)"
    and "\<And>j. j \<in> set idx \<Longrightarrow> j < n"
proof -
  from assms have all: "list_all (\<lambda>j. j < n) idx"
    and m: "msk = fold (\<lambda>j m. m[j := True]) idx (replicate n False)"
    by (auto simp: mask_rows_def split: if_splits)
  show "length msk = n" by (simp add: m fold_mask_length)
  show "\<And>k. k < n \<Longrightarrow> msk ! k = (k \<in> set idx)" by (simp add: m fold_mask_nth)
  show "\<And>j. j \<in> set idx \<Longrightarrow> j < n" using all by (simp add: list_all_iff)
qed

lemma compressed_eq:
  assumes "length msk = length arr"
  shows "compressed arr msk = map (\<lambda>k. arr ! k) (filter (\<lambda>k. \<not> msk ! k) [0..<length arr])"
proof -
  have z: "zip arr msk = map (\<lambda>k. (arr ! k, msk ! k)) [0..<length arr]"
    using assms by (intro nth_equalityI) simp_all
  show ?thesis
    by (simp add: compressed_def z filter_map comp_def)
qed

lemma find_common_points_Inr:
  assumes "find_common_points ip1 ip2 ip3 = Inr (cm1, cm2, m1, m2)"
  shows "cm1 = filter (\<lambda>i. np_where_rows 0 ip2 (ip1 ! i) \<noteq> []) [0..<length ip1]"
    and "cm2 = map (\<lambda>i. hd (np_where_rows 0 ip2 (ip1 ! i))) cm1"
    and "m1 = map (\<lambda>k. ip2 ! k) (filter (\<lambda>k. k \<notin> set cm2) [0..<length ip2])"
    and "m2 = map (\<lambda>k. ip3 ! k) (filter (\<lambda>k. k \<notin> set cm2) [0..<length ip3])"
    and "\<And>j. j \<in> set cm2 \<Longrightarrow> j < length ip2 \<and> j < length ip3"
proof -
  from assms obtain mask_1 mask_2 where
    loop: "common_loop ip1 ip2 = (cm1, cm2)"
    and k1: "mask_rows (length ip2) cm2 = Inr mask_1"
    and k2: "mask_rows (length ip3) cm2 = Inr mask_2"
    and r1: "m1 = compressed ip2 mask_1" and r2: "m2 = compressed ip3 mask_2"
    by (auto simp: find_common_points_def Let_def split: prod.splits sum.splits)
  from loop show "cm1 = filter (\<lambda>i. np_where_rows 0 ip2 (ip1 ! i) \<noteq> []) [0..<length ip1]"
    and "cm2 = map (\<lambda>i. hd (np_where_rows 0 ip2 (ip1 ! i))) cm1"
    by (auto simp: common_loop_eq)
  have "filter (\<lambda>k. \<not> mask_1 ! k) [0..<length ip2] = filter (\<lambda>k. k \<notin> set cm2) [0..<length ip2]"
    by (rule filter_cong) (simp_all add: mask_rows_Inr(2) [OF k1])
  then show "m1 = map (\<lambda>k. ip2 ! k) (filter (\<lambda>k. k \<notin> set cm2) [0..<length ip2])"
    by (simp add: r1 compressed_eq mask_rows_Inr(1) [OF k1])
  have "filter (\<lambda>k. \<not> mask_2 ! k) [0..<length ip3] = filter (\<lambda>k. k \<notin> set cm2) [0..<length ip3]"
    by (rule filter_cong) (simp_all add: mask_rows_Inr(2) [OF k2])
  then show "m2 = map (\<lambda>k. ip3 ! k) (filter (\<lambda>k. k \<notin> set cm2) [0..<length ip3])"
    by (simp add: r2 compressed_eq mask_rows_Inr(1) [OF k2])
  show "\<And>j. j \<in> set cm2 \<Longrightarrow> j < length ip2 \<and> j < length ip3"
    using mask_rows_Inr(3) [OF k1] mask_rows_Inr(3) [OF k2] by simp
qed
text \<open>
  C3. The known indices that the Track Linker returns into the new pair's shared-view
  array and the indices of the novel observations it returns are disjoint and together
  are all the indices of that array: the returned novel observations are the rows, in
  order, at exactly the indices that are not known (and likewise for the observations of
  the newly introduced view).
\<close>

theorem find_common_points_partition:
  assumes "find_common_points ip1 ip2 ip3 = Inr (cm1, cm2, m1, m2)"
  shows "let novel = filter (\<lambda>j. j \<notin> set cm2) [0..<length ip2] in
           m1 = map (\<lambda>j. ip2 ! j) novel
           \<and> m2 = map (\<lambda>j. ip3 ! j) (filter (\<lambda>j. j \<notin> set cm2) [0..<length ip3])
           \<and> set cm2 \<union> set novel = {..<length ip2}
           \<and> set cm2 \<inter> set novel = {}"
proof -
  have "set cm2 \<subseteq> {..<length ip2}"
    using find_common_points_Inr(5) [OF assms] by auto
  then have "set cm2 \<union> set (filter (\<lambda>j. j \<notin> set cm2) [0..<length ip2]) = {..<length ip2}"
    by auto
  moreover have "set cm2 \<inter> set (filter (\<lambda>j. j \<notin> set cm2) [0..<length ip2]) = {}"
    by auto
  ultimately show ?thesis
    using find_common_points_Inr(3) [OF assms] find_common_points_Inr(4) [OF assms]
    by (simp add: Let_def)
qed

theorem find_common_points_partition_witness:
  "find_common_points [(1, 2), (3, 4)] [(9, 9), (3, 4), (7, 7)] [(10, 10), (11, 11), (12, 12)]
     = Inr ([1], [1], [(9, 9), (7, 7)], [(10, 10), (12, 12)])
   \<and> set [1::nat] \<union> set (filter (\<lambda>j. j \<notin> set [1::nat]) [0..<length [(9::real, 9::real), (3, 4), (7, 7)]])
       = {..<length [(9::real, 9::real), (3, 4), (7, 7)]}"
proof -
  have run: "find_common_points [(1, 2), (3, 4)] [(9, 9), (3, 4), (7, 7)]
               [(10, 10), (11, 11), (12, 12)]
             = Inr ([1], [1], [(9, 9), (7, 7)], [(10, 10), (12, 12)])"
    by (simp add: find_common_points_def common_loop_def common_step_def mask_rows_def
          compressed_def upt_rec)
  from find_common_points_partition [OF run] have
    "set [1::nat] \<union> set (filter (\<lambda>j. j \<notin> set [1::nat])
         [0..<length [(9::real, 9::real), (3, 4), (7, 7)]])
       = {..<length [(9::real, 9::real), (3, 4), (7, 7)]}"
    unfolding Let_def by (elim conjE)
  with run show ?thesis by (rule conjI)
qed

lemma match_iff_member:
  assumes H: "\<forall>p \<in> set ip1. \<forall>q \<in> set ip2. fst q = fst p \<or> snd q = snd p \<longrightarrow> q = p"
    and i: "i < length ip1"
  shows "(np_where_rows 0 ip2 (ip1 ! i) \<noteq> []) = (ip1 ! i \<in> set ip2)"
proof -
  from i have mem: "ip1 ! i \<in> set ip1" by simp
  show ?thesis
  proof
    assume "np_where_rows 0 ip2 (ip1 ! i) \<noteq> []"
    then obtain q where "q \<in> set ip2" "fst q = fst (ip1 ! i) \<or> snd q = snd (ip1 ! i)"
      by (auto simp: np_where_rows_Nil)
    with H mem show "ip1 ! i \<in> set ip2" by blast
  next
    assume "ip1 ! i \<in> set ip2"
    then show "np_where_rows 0 ip2 (ip1 ! i) \<noteq> []"
      by (auto simp: np_where_rows_Nil)
  qed
qed

lemma first_match_is_first_equal:
  assumes H: "\<forall>p \<in> set ip1. \<forall>q \<in> set ip2. fst q = fst p \<or> snd q = snd p \<longrightarrow> q = p"
    and i: "i < length ip1" and m: "ip1 ! i \<in> set ip2"
  shows "hd (np_where_rows 0 ip2 (ip1 ! i)) < length ip2
       \<and> ip2 ! hd (np_where_rows 0 ip2 (ip1 ! i)) = ip1 ! i
       \<and> (\<forall>j' < hd (np_where_rows 0 ip2 (ip1 ! i)). ip2 ! j' \<noteq> ip1 ! i)"
proof -
  from i have mem: "ip1 ! i \<in> set ip1" by simp
  from m have ne: "np_where_rows 0 ip2 (ip1 ! i) \<noteq> []"
    using match_iff_member [OF H i] by simp
  from np_where_rows_hd [OF ne] obtain k where k: "k < length ip2"
    "hd (np_where_rows 0 ip2 (ip1 ! i)) = k"
    "fst (ip2 ! k) = fst (ip1 ! i) \<or> snd (ip2 ! k) = snd (ip1 ! i)"
    "\<forall>k' < k. fst (ip2 ! k') \<noteq> fst (ip1 ! i) \<and> snd (ip2 ! k') \<noteq> snd (ip1 ! i)"
    by auto
  from k(1) have "ip2 ! k \<in> set ip2" by simp
  with H mem k(3) have eq: "ip2 ! k = ip1 ! i" by blast
  from k(4) have "\<forall>j' < k. ip2 ! j' \<noteq> ip1 ! i" by auto
  with k(1,2) eq show ?thesis by simp
qed

text \<open>
  C2, as amended. On arrays in which a previous-pair observation and a new-pair
  observation that agree in one coordinate agree in both, the Track Linker links exactly
  the previous-pair observations that are equal to some new-pair shared-view
  observation, in increasing order, each to the first new-pair index that holds an equal
  observation. So a new-pair observation is known if and only if it is equal to some
  previous-pair observation and no earlier new-pair observation is equal to it; every
  matching previous index is used, also when several match the same new observation.
\<close>

theorem find_common_points_linking:
  assumes run: "find_common_points ip1 ip2 ip3 = Inr (cm1, cm2, m1, m2)"
    and H: "\<forall>p \<in> set ip1. \<forall>q \<in> set ip2. fst q = fst p \<or> snd q = snd p \<longrightarrow> q = p"
  shows "cm1 = filter (\<lambda>i. ip1 ! i \<in> set ip2) [0..<length ip1]
       \<and> length cm2 = length cm1
       \<and> (\<forall>k < length cm1. cm2 ! k < length ip2 \<and> ip2 ! (cm2 ! k) = ip1 ! (cm1 ! k)
                            \<and> (\<forall>j' < cm2 ! k. ip2 ! j' \<noteq> ip1 ! (cm1 ! k)))
       \<and> (\<forall>j < length ip2. (j \<in> set cm2) =
                             (ip2 ! j \<in> set ip1 \<and> (\<forall>j' < j. ip2 ! j' \<noteq> ip2 ! j)))"
proof -
  note c1 = find_common_points_Inr(1) [OF run]
  note c2 = find_common_points_Inr(2) [OF run]
  have cm1: "cm1 = filter (\<lambda>i. ip1 ! i \<in> set ip2) [0..<length ip1]"
    unfolding c1 by (rule filter_cong) (simp_all add: match_iff_member [OF H])
  have len: "length cm2 = length cm1" by (simp add: c2)
  have pairs: "cm2 ! k < length ip2 \<and> ip2 ! (cm2 ! k) = ip1 ! (cm1 ! k)
                 \<and> (\<forall>j' < cm2 ! k. ip2 ! j' \<noteq> ip1 ! (cm1 ! k))"
    if k: "k < length cm1" for k
  proof -
    from k have "cm1 ! k \<in> set cm1" by simp
    then have i: "cm1 ! k < length ip1" and m: "ip1 ! (cm1 ! k) \<in> set ip2"
      unfolding cm1 by simp_all
    have "cm2 ! k = hd (np_where_rows 0 ip2 (ip1 ! (cm1 ! k)))"
      using k by (simp add: c2)
    with first_match_is_first_equal [OF H i m] show ?thesis by simp
  qed
  have known: "(j \<in> set cm2) = (ip2 ! j \<in> set ip1 \<and> (\<forall>j' < j. ip2 ! j' \<noteq> ip2 ! j))"
    if j: "j < length ip2" for j
  proof
    assume "j \<in> set cm2"
    then obtain k where k: "k < length cm1" "cm2 ! k = j"
      using len by (auto simp: in_set_conv_nth)
    from k(1) have "cm1 ! k \<in> set cm1" by simp
    then have "cm1 ! k < length ip1" unfolding cm1 by simp
    then have "ip1 ! (cm1 ! k) \<in> set ip1" by simp
    with pairs [OF k(1)] k(2)
    show "ip2 ! j \<in> set ip1 \<and> (\<forall>j' < j. ip2 ! j' \<noteq> ip2 ! j)" by auto
  next
    assume a: "ip2 ! j \<in> set ip1 \<and> (\<forall>j' < j. ip2 ! j' \<noteq> ip2 ! j)"
    then obtain i where i: "i < length ip1" "ip1 ! i = ip2 ! j"
      by (auto simp: in_set_conv_nth)
    from j i(2) have m: "ip1 ! i \<in> set ip2" by simp
    with i(1) have "i \<in> set cm1" unfolding cm1 by simp
    then obtain k where k: "k < length cm1" "cm1 ! k = i"
      by (auto simp: in_set_conv_nth)
    from pairs [OF k(1)] k(2) i(2) have p: "cm2 ! k < length ip2"
      "ip2 ! (cm2 ! k) = ip2 ! j" "\<forall>j' < cm2 ! k. ip2 ! j' \<noteq> ip2 ! j"
      by simp_all
    have "cm2 ! k = j"
    proof (rule ccontr)
      assume "cm2 ! k \<noteq> j"
      then consider "cm2 ! k < j" | "j < cm2 ! k" by linarith
      then show False
      proof cases
        case 1
        with a p(2) show False by blast
      next
        case 2
        with p(3) show False by blast
      qed
    qed
    with k(1) len show "j \<in> set cm2" by (auto simp: in_set_conv_nth)
  qed
  from cm1 len pairs known show ?thesis by blast
qed

theorem find_common_points_linking_witness:
  "find_common_points [(1, 2), (1, 2)] [(1, 2), (1, 2)] [(5, 5), (6, 6)]
     = Inr ([0, 1], [0, 0], [(1, 2)], [(6, 6)])
   \<and> [0::nat, 1] = filter (\<lambda>i. [(1::real, 2::real), (1, 2)] ! i \<in> set [(1, 2), (1, 2)])
                       [0..<length [(1::real, 2::real), (1, 2)]]"
proof -
  have run: "find_common_points [(1, 2), (1, 2)] [(1, 2), (1, 2)] [(5, 5), (6, 6)]
               = Inr ([0, 1], [0, 0], [(1, 2)], [(6, 6)])"
    by (simp add: find_common_points_def common_loop_def common_step_def mask_rows_def
          compressed_def upt_rec)
  have H: "\<forall>p \<in> set [(1::real, 2::real), (1, 2)]. \<forall>q \<in> set [(1::real, 2::real), (1, 2)].
             fst q = fst p \<or> snd q = snd p \<longrightarrow> q = p"
    by simp
  from find_common_points_linking [OF run H] run show ?thesis
    by blast
qed

text \<open>
  The claim as the specification states it fails on this input, where no observation
  agrees with another in one coordinate only: the second new-pair observation is equal
  to a previous one and is not known (it comes back as novel), and both previous
  indices are linked to the new-pair index 0.
\<close>

theorem find_common_points_exact_match_counterexample:
  "find_common_points [(1, 2), (1, 2)] [(1, 2), (1, 2)] [(5, 5), (6, 6)]
     = Inr ([0, 1], [0, 0], [(1, 2)], [(6, 6)])
   \<and> spec_linked_pairs [(1, 2), (1, 2)] [(1, 2), (1, 2)] = [(0, 0), (0, 1)]
   \<and> set (zip [0::nat, 1] [0::nat, 0]) \<noteq> set [(0::nat, 0::nat), (0, 1)]"
proof -
  have "find_common_points [(1, 2), (1, 2)] [(1, 2), (1, 2)] [(5, 5), (6, 6)]
          = Inr ([0, 1], [0, 0], [(1, 2)], [(6, 6)])"
    by (simp add: find_common_points_def common_loop_def common_step_def mask_rows_def
          compressed_def upt_rec)
  moreover have "spec_linked_pairs [(1, 2), (1, 2)] [(1, 2), (1, 2)] = [(0, 0), (0, 1)]"
    by (simp add: spec_linked_pairs_def upt_rec)
  moreover have "set (zip [0::nat, 1] [0::nat, 0]) \<noteq> set [(0::nat, 0::nat), (0, 1)]"
  proof
    assume "set (zip [0::nat, 1] [0::nat, 0]) = set [(0::nat, 0::nat), (0, 1)]"
    moreover have "(1::nat, 0::nat) \<in> set (zip [0::nat, 1] [0::nat, 0])" by simp
    ultimately have "(1::nat, 0::nat) \<in> set [(0::nat, 0::nat), (0, 1)]" by blast
    then show False by simp
  qed
  ultimately show ?thesis by blast
qed

text \<open>
  Outside such inputs the comparison of the loop is elementwise: a previous-pair
  observation that shares one coordinate with a new-pair observation is linked to it.
\<close>

lemma find_common_points_one_coordinate:
  "find_common_points [(1, 2)] [(1, 5)] [(0, 0)] = Inr ([0], [0], [], [])"
  by (simp add: find_common_points_def common_loop_def common_step_def mask_rows_def
        compressed_def Let_def)

subsection \<open>Outlier filter and export\<close>

lemma map_nth_filter:
  "map (\<lambda>i. xs ! i) (filter (\<lambda>i. P (xs ! i)) [0..<length xs]) = filter P xs"
proof -
  have "filter P xs = filter P (map (\<lambda>i. xs ! i) [0..<length xs])"
    by (simp add: map_nth)
  also have "\<dots> = map (\<lambda>i. xs ! i) (filter (\<lambda>i. P (xs ! i)) [0..<length xs])"
    by (simp add: filter_map comp_def)
  finally show ?thesis by simp
qed

lemma centroid_filter_eq: "centroid_filter verts = distance_filter 300 verts"
proof -
  let ?c = "mean_axis0 (map fst verts)"
  let ?dist = "map norm3 (map (\<lambda>v. sub3 (fst v) ?c) verts)"
  have d: "?dist = map (\<lambda>v. norm3 (sub3 (fst v) ?c)) verts" by simp
  have "filter (\<lambda>i. ?dist ! i < np_mean ?dist + 300) [0..<length ?dist]
        = filter (\<lambda>i. norm3 (sub3 (fst (verts ! i)) ?c) < np_mean ?dist + 300) [0..<length verts]"
    by (rule filter_cong) simp_all
  then have "centroid_filter verts
        = map (\<lambda>i. verts ! i)
            (filter (\<lambda>i. norm3 (sub3 (fst (verts ! i)) ?c) < np_mean ?dist + 300)
               [0..<length verts])"
    by (simp add: centroid_filter_def Let_def)
  also have "\<dots> = filter (\<lambda>v. norm3 (sub3 (fst v) ?c) < np_mean ?dist + 300) verts"
    by (rule map_nth_filter [of verts "\<lambda>v. norm3 (sub3 (fst v) ?c) < np_mean ?dist + 300"])
  finally show ?thesis
    by (simp add: distance_filter_def Let_def comp_def)
qed

lemma np_mean_scale: "np_mean (map (\<lambda>x. x * c) xs) = np_mean xs * c"
  by (simp add: np_mean_def sum_list_mult_const)

lemma mean_axis0_scale: "mean_axis0 (map (scale3 c) ps) = scale3 c (mean_axis0 ps)"
proof -
  have 1: "map fst (map (scale3 c) ps) = map (\<lambda>x. x * c) (map fst ps)"
    by (induction ps) auto
  have 2: "map (\<lambda>p. fst (snd p)) (map (scale3 c) ps)
             = map (\<lambda>x. x * c) (map (\<lambda>p. fst (snd p)) ps)"
    by (induction ps) auto
  have 3: "map (\<lambda>p. snd (snd p)) (map (scale3 c) ps)
             = map (\<lambda>x. x * c) (map (\<lambda>p. snd (snd p)) ps)"
    by (induction ps) auto
  show ?thesis
    unfolding mean_axis0_def 1 2 3 np_mean_scale by simp
qed

lemma norm3_sub3_scale:
  assumes "0 \<le> c"
  shows "norm3 (sub3 (scale3 c p) (scale3 c q)) = norm3 (sub3 p q) * c"
proof -
  obtain a0 a1 a2 where p: "p = (a0, a1, a2)" by (cases p)
  obtain b0 b1 b2 where q: "q = (b0, b1, b2)" by (cases q)
  have "(a0 * c - b0 * c)\<^sup>2 + (a1 * c - b1 * c)\<^sup>2 + (a2 * c - b2 * c)\<^sup>2
          = ((a0 - b0)\<^sup>2 + (a1 - b1)\<^sup>2 + (a2 - b2)\<^sup>2) * c\<^sup>2"
    by (simp add: power2_eq_square algebra_simps)
  then have "sqrt ((a0 * c - b0 * c)\<^sup>2 + (a1 * c - b1 * c)\<^sup>2 + (a2 * c - b2 * c)\<^sup>2)
          = sqrt ((a0 - b0)\<^sup>2 + (a1 - b1)\<^sup>2 + (a2 - b2)\<^sup>2) * c"
    using assms by (simp add: real_sqrt_mult)
  then show ?thesis by (simp add: p q)
qed

lemma distance_filter_scale:
  assumes c: "0 < c"
  shows "distance_filter (t * c) (map (apfst (scale3 c)) verts)
           = map (apfst (scale3 c)) (distance_filter t verts)"
proof -
  let ?g = "apfst (scale3 c) :: vec3 \<times> 'a \<Rightarrow> vec3 \<times> 'a"
  let ?m = "mean_axis0 (map fst verts)"
  let ?dist = "map (\<lambda>v. norm3 (sub3 (fst v) ?m)) verts"
  have m: "mean_axis0 (map fst (map ?g verts)) = scale3 c ?m"
    by (simp add: comp_def mean_axis0_scale [symmetric])
  have n: "norm3 (sub3 (scale3 c (fst v)) (scale3 c ?m)) = norm3 (sub3 (fst v) ?m) * c"
    for v :: "vec3 \<times> 'a"
    using c by (simp add: norm3_sub3_scale)
  have d: "map (\<lambda>v. norm3 (sub3 (fst v) (scale3 c ?m))) (map ?g verts)
             = map (\<lambda>x. x * c) ?dist"
    by (simp add: comp_def n)
  have "distance_filter (t * c) (map ?g verts)
          = filter (\<lambda>v. norm3 (sub3 (fst v) (scale3 c ?m)) < np_mean ?dist * c + t * c)
              (map ?g verts)"
    unfolding distance_filter_def Let_def m d np_mean_scale ..
  also have "\<dots> = map ?g (filter (\<lambda>v. norm3 (sub3 (fst v) ?m) * c < np_mean ?dist * c + t * c)
                              verts)"
    by (simp add: filter_map comp_def n)
  also have "(\<lambda>v::vec3 \<times> 'a. norm3 (sub3 (fst v) ?m) * c < np_mean ?dist * c + t * c)
               = (\<lambda>v. norm3 (sub3 (fst v) ?m) < np_mean ?dist + t)"
  proof
    fix v :: "vec3 \<times> 'a"
    have "np_mean ?dist * c + t * c = (np_mean ?dist + t) * c"
      by (simp add: algebra_simps)
    then show "(norm3 (sub3 (fst v) ?m) * c < np_mean ?dist * c + t * c)
                 = (norm3 (sub3 (fst v) ?m) < np_mean ?dist + t)"
      using c by simp
  qed
  finally show ?thesis
    by (simp add: distance_filter_def Let_def)
qed

lemma zip_map_apfst: "zip (map f xs) ys = map (apfst f) (zip xs ys)"
  by (induction xs arbitrary: ys) (auto simp: zip_Cons1 split: list.splits)

lemma norm3_x_axis: "norm3 (x, 0, 0) = \<bar>x\<bar>"
  by simp
text \<open>
  C1, as amended. The exporter scales the accumulated points by 200 first and filters the
  scaled points: a point is kept when its scaled distance to the scaled centroid is
  strictly less than the mean scaled distance plus 300. On the unscaled coordinates this
  is the filter with the margin \<open>300 / 200 = 1.5\<close>, followed by the scaling.
\<close>

theorem save_to_ply_scales_then_filters:
  assumes "length point_cloud = length colors"
  shows "save_to_ply point_cloud colors
           = Inr (distance_filter 300 (zip (map (scale3 200) point_cloud) colors))
       \<and> save_to_ply point_cloud colors
           = Inr (map (apfst (scale3 200)) (distance_filter (3 / 2) (zip point_cloud colors)))"
proof -
  have 1: "save_to_ply point_cloud colors
             = Inr (distance_filter 300 (zip (map (scale3 200) point_cloud) colors))"
    using assms by (simp add: save_to_ply_def Let_def centroid_filter_eq)
  have "distance_filter (3 / 2 * 200) (map (apfst (scale3 200)) (zip point_cloud colors))
          = map (apfst (scale3 200)) (distance_filter (3 / 2) (zip point_cloud colors))"
    by (rule distance_filter_scale) simp
  then have "distance_filter 300 (zip (map (scale3 200) point_cloud) colors)
          = map (apfst (scale3 200)) (distance_filter (3 / 2) (zip point_cloud colors))"
    by (simp add: zip_map_apfst)
  with 1 show ?thesis by simp
qed

theorem save_to_ply_scales_then_filters_witness:
  "length [(0::real, 0::real, 0::real), (0, 0, 0), (0, 0, 0), (8, 0, 0)] = length [0::nat, 1, 2, 3]
   \<and> save_to_ply [(0, 0, 0), (0, 0, 0), (0, 0, 0), (8, 0, 0)] [0::nat, 1, 2, 3]
       = Inr (map (apfst (scale3 200))
               (distance_filter (3 / 2)
                  (zip [(0, 0, 0), (0, 0, 0), (0, 0, 0), (8, 0, 0)] [0::nat, 1, 2, 3])))"
proof -
  have len: "length [(0::real, 0::real, 0::real), (0, 0, 0), (0, 0, 0), (8, 0, 0)]
               = length [0::nat, 1, 2, 3]"
    by simp
  from save_to_ply_scales_then_filters [OF len] len show ?thesis by blast
qed

text \<open>
  The order that the specification states gives another result: on three points at the
  origin and one at \<open>(8, 0, 0)\<close> the unscaled distances are \<open>2, 2, 2, 6\<close> with mean 3, so
  filtering first keeps all four points; the exporter filters the scaled distances
  \<open>400, 400, 400, 1200\<close> with mean 600 and drops the fourth. (In the examples the
  colour of a row is its number, which tells the rows apart; the filter does not read it.)
\<close>

theorem save_to_ply_filter_first_counterexample:
  "save_to_ply [(0, 0, 0), (0, 0, 0), (0, 0, 0), (8, 0, 0)] [0::nat, 1, 2, 3]
     = Inr [((0, 0, 0), 0), ((0, 0, 0), 1), ((0, 0, 0), 2)]
   \<and> spec_finalize [(0, 0, 0), (0, 0, 0), (0, 0, 0), (8, 0, 0)] [0::nat, 1, 2, 3]
     = Inr [((0, 0, 0), 0), ((0, 0, 0), 1), ((0, 0, 0), 2), ((1600, 0, 0), 3)]"
proof -
  have "save_to_ply [(0, 0, 0), (0, 0, 0), (0, 0, 0), (8, 0, 0)] [0::nat, 1, 2, 3]
          = Inr [((0, 0, 0), 0), ((0, 0, 0), 1), ((0, 0, 0), 2)]"
    by (simp add: save_to_ply_def centroid_filter_def Let_def mean_axis0_def np_mean_def
          norm3_x_axis del: norm3.simps)
  moreover
  have "spec_finalize [(0, 0, 0), (0, 0, 0), (0, 0, 0), (8, 0, 0)] [0::nat, 1, 2, 3]
          = Inr [((0, 0, 0), 0), ((0, 0, 0), 1), ((0, 0, 0), 2), ((1600, 0, 0), 3)]"
    by (simp add: spec_finalize_def spec_outlier_filter_def Let_def mean_axis0_def np_mean_def
          norm3_x_axis del: norm3.simps)
  ultimately show ?thesis by (rule conjI)
qed

text \<open>
  C6, as amended. A cloud all of whose points lie strictly closer to its centroid than
  the mean distance plus 300 is left as it is by the filter.
\<close>

theorem centroid_filter_keeps_all:
  assumes "\<forall>v \<in> set verts.
             norm3 (sub3 (fst v) (mean_axis0 (map fst verts)))
               < np_mean (map (\<lambda>v. norm3 (sub3 (fst v) (mean_axis0 (map fst verts)))) verts)
                 + 300"
  shows "centroid_filter verts = verts"
  using assms by (simp add: centroid_filter_eq distance_filter_def Let_def)

theorem centroid_filter_keeps_all_witness:
  "centroid_filter [((0, 0, 0), 0::nat), ((2, 0, 0), 1)] = [((0, 0, 0), 0), ((2, 0, 0), 1)]"
proof -
  have "\<forall>v \<in> set [((0::real, 0::real, 0::real), 0::nat), ((2, 0, 0), 1)].
          norm3 (sub3 (fst v) (mean_axis0 (map fst [((0, 0, 0), 0::nat), ((2, 0, 0), 1)])))
            < np_mean (map (\<lambda>v. norm3 (sub3 (fst v)
                  (mean_axis0 (map fst [((0, 0, 0), 0::nat), ((2, 0, 0), 1)]))))
                [((0, 0, 0), 0::nat), ((2, 0, 0), 1)]) + 300"
    by (simp add: mean_axis0_def np_mean_def norm3_x_axis del: norm3.simps)
  then show ?thesis by (rule centroid_filter_keeps_all)
qed

text \<open>
  With "within" read as "at most", the claim fails at the boundary: of three points at
  the origin and one at \<open>(800, 0, 0)\<close> the distances to the centroid are
  \<open>200, 200, 200, 600\<close> and their mean is 300, so every point lies within the mean plus
  300, and the filter, which keeps a point only below that bound, drops the fourth.
\<close>

theorem centroid_filter_boundary_counterexample:
  "within_margin [((0, 0, 0), 0::nat), ((0, 0, 0), 1), ((0, 0, 0), 2), ((800, 0, 0), 3)]
   \<and> centroid_filter [((0, 0, 0), 0::nat), ((0, 0, 0), 1), ((0, 0, 0), 2), ((800, 0, 0), 3)]
       = [((0, 0, 0), 0), ((0, 0, 0), 1), ((0, 0, 0), 2)]"
proof -
  have "within_margin [((0, 0, 0), 0::nat), ((0, 0, 0), 1), ((0, 0, 0), 2), ((800, 0, 0), 3)]"
    by (simp add: within_margin_def Let_def mean_axis0_def np_mean_def norm3_x_axis
          del: norm3.simps)
  moreover
  have "centroid_filter [((0, 0, 0), 0::nat), ((0, 0, 0), 1), ((0, 0, 0), 2), ((800, 0, 0), 3)]
          = [((0, 0, 0), 0), ((0, 0, 0), 1), ((0, 0, 0), 2)]"
    by (simp add: centroid_filter_def Let_def mean_axis0_def np_mean_def norm3_x_axis
          del: norm3.simps)
  ultimately show ?thesis by (rule conjI)
qed

text \<open>
  Nor is the output of the filter always a cloud that the filter keeps: dropping an
  outlier moves the centroid and lowers the mean distance, and a second pass can drop
  a further point.
\<close>

lemma centroid_filter_second_pass:
  "centroid_filter [((0, 0, 0), 0::nat), ((0, 0, 0), 1), ((0, 0, 0), 2), ((0, 0, 0), 3),
                    ((700, 0, 0), 4), ((1100, 0, 0), 5)]
     = [((0, 0, 0), 0), ((0, 0, 0), 1), ((0, 0, 0), 2), ((0, 0, 0), 3), ((700, 0, 0), 4)]
   \<and> centroid_filter [((0, 0, 0), 0::nat), ((0, 0, 0), 1), ((0, 0, 0), 2), ((0, 0, 0), 3),
                      ((700, 0, 0), 4)]
     = [((0, 0, 0), 0), ((0, 0, 0), 1), ((0, 0, 0), 2), ((0, 0, 0), 3)]"
  by (simp add: centroid_filter_def Let_def mean_axis0_def np_mean_def norm3_x_axis
        del: norm3.simps)

subsection \<open>Reprojection error\<close>

lemma point_distance_sq:
  "(point_distance r s)\<^sup>2 = sum_list (map (\<lambda>(x, y). (x - y)\<^sup>2) (zip r s))"
proof -
  have "0 \<le> sum_list (map (\<lambda>(x, y). (x - y)\<^sup>2) (zip r s))"
    by (rule sum_list_nonneg) auto
  then show ?thesis by (simp add: point_distance_def)
qed

text \<open>
  C4, as amended. The scalar that the Reprojection Evaluator returns is the L2 norm of
  the difference of the whole arrays divided by the number \<open>N\<close> of points: the square root
  of the sum of the squared Euclidean distances between each projected point and its
  observed point, divided by \<open>N\<close>.
\<close>

theorem reproj_error_value:
  assumes "reproj_error Rodrigues conv projectPoints obj_points image_points
             transform_matrix intr homogenity = Inr (err, obj_out)"
  shows "\<exists>calc. projectPoints obj_out (Rodrigues (rot_part transform_matrix))
                  (tran_part transform_matrix) intr = Inr calc
           \<and> calc \<noteq> []
           \<and> obj_out = (if homogenity = 1 then conv obj_points else obj_points)
           \<and> err = sqrt (sum_list (map (\<lambda>(r, s). (point_distance r s)\<^sup>2)
                             (zip calc (if homogenity = 1 then transpose image_points
                                        else image_points))))
                   / real (length calc)"
proof -
  let ?obj = "if homogenity = 1 then conv obj_points else obj_points"
  let ?obs = "if homogenity = 1 then transpose image_points else image_points"
  from assms obtain calc total where
    p: "projectPoints ?obj (Rodrigues (rot_part transform_matrix))
          (tran_part transform_matrix) intr = Inr calc"
    and n: "cv2_norm_L2 calc ?obs = Inr total"
    and ne: "length calc \<noteq> 0"
    and e: "err = total / real (length calc)" and o: "obj_out = ?obj"
    by (auto simp: reproj_error_def Let_def split: sum.splits if_splits)
  from n have "total = sqrt (sum_list (map (\<lambda>(r, s). sum_list (map (\<lambda>(x, y). (x - y)\<^sup>2) (zip r s)))
                                        (zip calc ?obs)))"
    by (auto simp: cv2_norm_L2_def split: if_splits)
  also have "(\<lambda>(r, s). sum_list (map (\<lambda>(x, y). (x - y)\<^sup>2) (zip r s)))
               = (\<lambda>(r, s). (point_distance r s)\<^sup>2)"
    by (simp add: point_distance_sq)
  finally have "err = sqrt (sum_list (map (\<lambda>(r, s). (point_distance r s)\<^sup>2) (zip calc ?obs)))
                        / real (length calc)"
    using e by simp
  with p ne o show ?thesis by auto
qed

lemma sqrt_25: "sqrt 25 = 5"
  by (rule real_sqrt_unique) simp_all

lemma sqrt_9: "sqrt 9 = 3"
  by (rule real_sqrt_unique) simp_all

lemma sqrt_16: "sqrt 16 = 4"
  by (rule real_sqrt_unique) simp_all

lemma reproj_error_example:
  "reproj_error (\<lambda>R. R) (\<lambda>a. a) pinhole_projectPoints [(3, 0, 1), (4, 0, 1)] [[0, 0], [0, 0]]
     transform_matrix_0_init ((1, 0, 0), (0, 1, 0), (0, 0, 1)) 0
     = Inr (5 / 2, [(3, 0, 1), (4, 0, 1)])"
  by (simp add: reproj_error_def Let_def pinhole_projectPoints_def cv2_norm_L2_def
        transform_matrix_0_init_def sqrt_25)

theorem reproj_error_value_witness:
  "reproj_error (\<lambda>R. R) (\<lambda>a. a) pinhole_projectPoints [(3, 0, 1), (4, 0, 1)] [[0, 0], [0, 0]]
     transform_matrix_0_init ((1, 0, 0), (0, 1, 0), (0, 0, 1)) 0
     = Inr (5 / 2, [(3, 0, 1), (4, 0, 1)])
   \<and> (\<exists>calc. pinhole_projectPoints [(3, 0, 1), (4, 0, 1)] (rot_part transform_matrix_0_init)
                (tran_part transform_matrix_0_init) ((1, 0, 0), (0, 1, 0), (0, 0, 1)) = Inr calc
          \<and> 5 / 2 = sqrt (sum_list (map (\<lambda>(r, s). (point_distance r s)\<^sup>2)
                             (zip calc [[0, 0], [0, 0]]))) / real (length calc))"
proof -
  from reproj_error_value [OF reproj_error_example] obtain calc where
    "pinhole_projectPoints [(3, 0, 1), (4, 0, 1)] (rot_part transform_matrix_0_init)
        (tran_part transform_matrix_0_init) ((1, 0, 0), (0, 1, 0), (0, 0, 1)) = Inr calc"
    and "5 / 2 = sqrt (sum_list (map (\<lambda>(r, s). (point_distance r s)\<^sup>2)
                          (zip calc (if (0::int) = 1 then transpose [[0, 0], [0, 0]]
                                     else [[0, 0], [0, 0]])))) / real (length calc)"
    by auto
  then have "\<exists>calc. pinhole_projectPoints [(3, 0, 1), (4, 0, 1)]
                (rot_part transform_matrix_0_init)
                (tran_part transform_matrix_0_init) ((1, 0, 0), (0, 1, 0), (0, 0, 1)) = Inr calc
          \<and> 5 / 2 = sqrt (sum_list (map (\<lambda>(r, s). (point_distance r s)\<^sup>2)
                             (zip calc [[0, 0], [0, 0]]))) / real (length calc)"
    by auto
  with reproj_error_example show ?thesis by (rule conjI)
qed

text \<open>
  This is not the mean of the per-point distances: for two points projected at distances
  3 and 4 from their observations the evaluator returns \<open>sqrt (9 + 16) / 2 = 5 / 2\<close>, and
  the mean distance is \<open>7 / 2\<close>.
\<close>

theorem reproj_error_mean_counterexample:
  "reproj_error (\<lambda>R. R) (\<lambda>a. a) pinhole_projectPoints [(3, 0, 1), (4, 0, 1)] [[0, 0], [0, 0]]
     transform_matrix_0_init ((1, 0, 0), (0, 1, 0), (0, 0, 1)) 0
     = Inr (5 / 2, [(3, 0, 1), (4, 0, 1)])
   \<and> pinhole_projectPoints [(3, 0, 1), (4, 0, 1)] (rot_part transform_matrix_0_init)
        (tran_part transform_matrix_0_init) ((1, 0, 0), (0, 1, 0), (0, 0, 1))
     = Inr [[3, 0], [4, 0]]
   \<and> spec_mean_distance [[3, 0], [4, 0]] [[0, 0], [0, 0]] = 7 / 2"
proof -
  have "pinhole_projectPoints [(3, 0, 1), (4, 0, 1)] (rot_part transform_matrix_0_init)
          (tran_part transform_matrix_0_init) ((1, 0, 0), (0, 1, 0), (0, 0, 1))
        = Inr [[3, 0], [4, 0]]"
    by (simp add: pinhole_projectPoints_def transform_matrix_0_init_def)
  moreover have "spec_mean_distance [[3, 0], [4, 0]] [[0, 0], [0, 0]] = 7 / 2"
    by (simp add: spec_mean_distance_def point_distance_def sqrt_9 sqrt_16)
  ultimately show ?thesis using reproj_error_example by blast
qed

subsection \<open>Intrinsics\<close>

lemma reshape33_Inr_iff: "(\<exists>m. reshape33 xs = Inr m) = (length xs = 9)"
  by (cases xs rule: reshape33.cases) simp_all

lemma reshape33_length: "length xs = length ys \<Longrightarrow>
    (case reshape33 xs of Inl e \<Rightarrow> None | Inr m \<Rightarrow> Some ()) =
    (case reshape33 ys of Inl e \<Rightarrow> None | Inr m \<Rightarrow> Some ())"
proof -
  assume l: "length xs = length ys"
  have e: "reshape33 zs = Inl ValueError" if "\<not> (\<exists>m. reshape33 zs = Inr m)" for zs
    using that by (cases zs rule: reshape33.cases) simp_all
  show ?thesis
  proof (cases "length xs = 9")
    case True
    with l reshape33_Inr_iff [of xs] reshape33_Inr_iff [of ys] show ?thesis by auto
  next
    case False
    with l reshape33_Inr_iff [of xs] reshape33_Inr_iff [of ys]
    have "reshape33 xs = Inl ValueError" "reshape33 ys = Inl ValueError"
      by (auto intro: e)
    then show ?thesis by simp
  qed
qed

lemma ba_unpack_ignores_intrinsics:
  assumes l: "length v = length v'" and t: "take 12 v = take 12 v'"
    and d: "drop 21 v = drop 21 v'"
  shows "ba_unpack v = ba_unpack v'"
proof -
  have s1: "slice 0 12 v = slice 0 12 v'" using t by (simp add: slice_def)
  have s2: "slice 21 (21 + r) v = slice 21 (21 + r) v'" for r
    using d by (simp add: slice_def)
  have s3: "drop (21 + r) v = drop (21 + r) v'" for r
  proof -
    have "drop (21 + r) v = drop r (drop 21 v)" by (simp add: add.commute)
    also have "\<dots> = drop r (drop 21 v')" by (simp only: d)
    also have "\<dots> = drop (21 + r) v'" by (simp add: add.commute)
    finally show ?thesis .
  qed
  have "length (slice 12 21 v) = length (slice 12 21 v')"
    using l by (simp add: slice_def)
  from reshape33_length [OF this]
  have k: "(case reshape33 (slice 12 21 v) of Inl e \<Rightarrow> None | Inr m \<Rightarrow> Some ()) =
           (case reshape33 (slice 12 21 v') of Inl e \<Rightarrow> None | Inr m \<Rightarrow> Some ())" .
  have e: "reshape33 zs = Inl ValueError \<or> (\<exists>m. reshape33 zs = Inr m)" for zs
    by (cases zs rule: reshape33.cases) simp_all
  have u: "ba_unpack w =
      (case reshape33 (slice 12 21 w) of
         Inl e \<Rightarrow> Inl e
       | Inr m \<Rightarrow>
           (case reshape_N3 (drop (21 + int_0_4 (length (drop 21 w))) w) of
              Inl e \<Rightarrow> Inl e
            | Inr points \<Rightarrow>
                (case reshape_2N_T (slice 21 (21 + int_0_4 (length (drop 21 w))) w)
                        (int_0_4 (length (drop 21 w))) of
                   Inl e \<Rightarrow> Inl e
                 | Inr opt \<Rightarrow>
                     (case reshape34 (slice 0 12 w) of
                        Inl e \<Rightarrow> Inl e
                      | Inr transform_matrix \<Rightarrow> Inr (points, opt, transform_matrix)))))"
    for w
    by (unfold ba_unpack_def Let_def, rule refl)
  from e [of "slice 12 21 v"] e [of "slice 12 21 v'"] k show ?thesis
    unfolding u [of v] u [of v'] s1 s2 s3 d by auto
qed

lemma intrinsics_scaled_at_load:
  assumes "f \<noteq> 0"
  shows "K (ImageLoader_init ((k00, k01, k02), (k10, k11, k12), (k20, k21, k22)) images cwd f)
           = ((k00 / f, k01, k02 / f), (k10, k11 / f, k12 / f), (k20, k21, k22))
       \<and> image_list (ImageLoader_init ((k00, k01, k02), (k10, k11, k12), (k20, k21, k22))
                        images cwd f) = images
       \<and> factor (ImageLoader_init ((k00, k01, k02), (k10, k11, k12), (k20, k21, k22))
                    images cwd f) = f"
  by (simp add: ImageLoader_init_def downscale_instrinsics_def)


end
